theory Spec2Isabelle
  imports Main
begin

section \<open>Rate limiter of the Gemini client (src/utils/gemini.js, lines 8-31)\<close>

text \<open>
  The object \<open>rateLimiter\<close> holds the list \<open>requests\<close> of the times (milliseconds, as
  \<open>Date.now()\<close> returns them) of the admitted calls, and two fields that are never
  assigned: \<open>maxRequests: 60\<close> and \<open>windowMs: 60 * 1000\<close>. The clock reading is an
  argument of each operation.
\<close>

record rateLimiter =
  requests :: "int list"

definition maxRequests :: nat where
  "maxRequests = 60"

definition windowMs :: int where
  "windowMs = 60 * 1000"

definition rateLimiter_init :: rateLimiter where
  "rateLimiter_init = \<lparr>requests = []\<rparr>"

text \<open>
  \<open>canMakeRequest\<close>: prune with \<open>filter(time => now - time < windowMs)\<close>, answer
  \<open>false\<close> when \<open>requests.length >= maxRequests\<close>, otherwise push \<open>now\<close> and answer
  \<open>true\<close>. The pruned list is stored in both branches.
\<close>

definition canMakeRequest :: "int \<Rightarrow> rateLimiter \<Rightarrow> bool \<times> rateLimiter" where
  "canMakeRequest now st =
     (let st1 = st\<lparr>requests := filter (\<lambda>time. now - time < windowMs) (requests st)\<rparr>
      in if length (requests st1) \<ge> maxRequests then (False, st1)
         else (True, st1\<lparr>requests := requests st1 @ [now]\<rparr>))"

text \<open>
  \<open>getRetryDelay\<close>: \<open>requests[0]\<close> is \<open>undefined\<close> on the empty list, and the test
  \<open>oldestRequest ? ... : 0\<close> is JavaScript truthiness, so a stored time \<open>0\<close> also
  gives \<open>0\<close>.
\<close>

definition getRetryDelay :: "int \<Rightarrow> rateLimiter \<Rightarrow> int" where
  "getRetryDelay now st =
     (case requests st of
        [] \<Rightarrow> 0
      | oldestRequest # _ \<Rightarrow>
          if oldestRequest \<noteq> 0 then windowMs - (now - oldestRequest) else 0)"

text \<open>A sequence of admission checks, one per clock reading, threading the limiter.\<close>

fun canMakeRequests :: "int list \<Rightarrow> rateLimiter \<Rightarrow> bool list \<times> rateLimiter" where
  "canMakeRequests [] st = ([], st)"
| "canMakeRequests (now # nows) st =
     (case canMakeRequest now st of
        (ok, st1) \<Rightarrow> (case canMakeRequests nows st1 of (oks, st2) \<Rightarrow> (ok # oks, st2)))"


section \<open>Errors and the admission gate of the client functions (src/utils/gemini.js)\<close>

text \<open>
  A JavaScript error as the client reads it: its \<open>message\<close>, the HTTP status of
  \<open>error.response\<close> when the rejection carries a response (\<open>error.response?.status\<close>),
  and \<open>error.code\<close>. \<open>new Error(msg)\<close> has neither response nor code.
\<close>

record js_error =
  message :: string
  response_status :: "nat option"
  code :: "string option"

definition new_Error :: "string \<Rightarrow> js_error" where
  "new_Error msg = \<lparr>message = msg, response_status = None, code = None\<rparr>"

text \<open>Decimal printing of an integer, as a template literal prints a whole number.\<close>

fun show_nat :: "nat \<Rightarrow> string" where
  "show_nat n =
     (if n < 10 then [''0123456789'' ! n]
      else show_nat (n div 10) @ [''0123456789'' ! (n mod 10)])"

declare show_nat.simps [simp del]

definition show_int :: "int \<Rightarrow> string" where
  "show_int i = (if i < 0 then CHR ''-'' # show_nat (nat (- i)) else show_nat (nat i))"

text \<open>\<open>Math.ceil(a / b)\<close> on whole numbers with \<open>b > 0\<close>.\<close>

definition ceil_div :: "int \<Rightarrow> int \<Rightarrow> int" where
  "ceil_div a b = - ((- a) div b)"

text \<open>
  Each of the four client functions opens with the same check (lines 37-40, 142-145,
  190-193, 242-245): when \<open>canMakeRequest()\<close> is false it reads \<open>getRetryDelay()\<close>
  (a second clock reading, \<open>now'\<close>) and throws
  \<open>Rate limit exceeded. Please try again in N seconds.\<close> with
  \<open>N = Math.ceil(retryDelay / 1000)\<close>.
\<close>

definition rateLimitCheck :: "int \<Rightarrow> int \<Rightarrow> rateLimiter \<Rightarrow> (js_error + unit) \<times> rateLimiter" where
  "rateLimitCheck now now' st =
     (case canMakeRequest now st of
        (ok, st1) \<Rightarrow>
          if \<not> ok then
            (let retryDelay = getRetryDelay now' st1
             in (Inl (new_Error (''Rate limit exceeded. Please try again in '' @
                        show_int (ceil_div retryDelay 1000) @ '' seconds.'')), st1))
          else (Inr (), st1))"

section \<open>The retrying call of generateProjectSuggestions (src/utils/gemini.js, lines 34-137)\<close>

text \<open>
  The body of a Gemini response, as far as the client inspects it:
  \<open>result.candidates[0].content.parts[0].text\<close>, where \<open>candidates\<close>, \<open>content\<close> and
  \<open>parts\<close> may be missing.
\<close>

record gemini_part =
  part_text :: string

record gemini_content =
  parts :: "gemini_part list option"

record gemini_candidate =
  content :: "gemini_content option"

record gemini_result =
  candidates :: "gemini_candidate list option"

record axios_response =
  status :: nat
  data :: gemini_result

text \<open>
  One \<open>axios.post\<close> either resolves with a response or rejects with an error. The
  target is given as the list of the outcomes of its successive calls; the prompt built
  from \<open>projectDetails\<close> is sent unchanged in every attempt and does not enter the
  control flow.
\<close>

datatype axios_outcome = Resolved axios_response | Rejected js_error

text \<open>What the run did: the number of \<open>axios.post\<close> calls and the delays slept, in order.\<close>

record trace =
  attempts :: nat
  delays :: "nat list"

definition trace_init :: trace where
  "trace_init = \<lparr>attempts = 0, delays = []\<rparr>"

definition maxRetries :: nat where
  "maxRetries = 3"

definition baseDelay :: nat where
  "baseDelay = 1000"

text \<open>
  The loop \<open>while (retryCount < maxRetries)\<close> of lines 69-95. A resolved response with
  status 200 breaks; any other resolved response goes round again with \<open>retryCount\<close>
  unchanged and no delay. A rejection with \<open>error.response?.status === 429\<close> increments
  \<open>retryCount\<close>, computes \<open>delay = baseDelay * Math.pow(2, retryCount - 1)\<close> and, when
  \<open>retryCount < maxRetries\<close>, sleeps and continues; every other path through the catch
  block ends in \<open>throw error\<close>. The result is \<open>None\<close> when the list of outcomes ends
  before the loop does.
\<close>

fun retryLoop ::
  "axios_outcome list \<Rightarrow> nat \<Rightarrow> axios_response option \<Rightarrow> trace \<Rightarrow>
   ((js_error + axios_response option) \<times> trace) option" where
  "retryLoop [] retryCount response tr =
     (if retryCount < maxRetries then None else Some (Inr response, tr))"
| "retryLoop (Resolved r # script) retryCount response tr =
     (if retryCount < maxRetries then
        (let tr1 = tr\<lparr>attempts := attempts tr + 1\<rparr>
         in if status r = 200 then Some (Inr (Some r), tr1)
            else retryLoop script retryCount (Some r) tr1)
      else Some (Inr response, tr))"
| "retryLoop (Rejected error # script) retryCount response tr =
     (if retryCount < maxRetries then
        (let tr1 = tr\<lparr>attempts := attempts tr + 1\<rparr>
         in if response_status error = Some 429 then
              (let retryCount1 = retryCount + 1;
                   delay = baseDelay * 2 ^ (retryCount1 - 1)
               in if retryCount1 < maxRetries
                  then retryLoop script retryCount1 response (tr1\<lparr>delays := delays tr1 @ [delay]\<rparr>)
                  else Some (Inl error, tr1))
            else Some (Inl error, tr1))
      else Some (Inr response, tr))"

text \<open>Lines 101-114: the text of the first part of the first candidate, or an error.\<close>

definition extractSuggestions :: "gemini_result \<Rightarrow> js_error + string" where
  "extractSuggestions result =
     (case candidates result of
        Some (c # _) \<Rightarrow>
          (case content c of
             Some ct \<Rightarrow>
               (case parts ct of
                  Some (p # _) \<Rightarrow> Inr (part_text p)
                | _ \<Rightarrow> Inl (new_Error ''Invalid response structure from Gemini API''))
           | None \<Rightarrow> Inl (new_Error ''Invalid response structure from Gemini API''))
      | _ \<Rightarrow> Inl (new_Error ''Invalid response structure from Gemini API''))"

text \<open>The \<open>try\<close> block, lines 36-114: the admission check, the loop, the extraction.\<close>

definition suggestionsTry ::
  "int \<Rightarrow> int \<Rightarrow> rateLimiter \<Rightarrow> axios_outcome list \<Rightarrow>
   ((js_error + string) \<times> rateLimiter \<times> trace) option" where
  "suggestionsTry now now' st script =
     (case rateLimitCheck now now' st of
        (Inl e, st1) \<Rightarrow> Some (Inl e, st1, trace_init)
      | (Inr _, st1) \<Rightarrow>
          (case retryLoop script 0 None trace_init of
             None \<Rightarrow> None
           | Some (Inl e, tr) \<Rightarrow> Some (Inl e, st1, tr)
           | Some (Inr response, tr) \<Rightarrow>
               (case response of
                  None \<Rightarrow>
                    Some (Inl (new_Error
                      ''Failed to get a successful response from Gemini API after retries''), st1, tr)
                | Some r \<Rightarrow>
                    if status r \<noteq> 200 then
                      Some (Inl (new_Error
                        ''Failed to get a successful response from Gemini API after retries''), st1, tr)
                    else Some (extractSuggestions (data r), st1, tr))))"

text \<open>The \<open>catch\<close> block, lines 116-136: every caught error is replaced by a new one.\<close>

definition suggestionsCatch :: "js_error \<Rightarrow> js_error" where
  "suggestionsCatch error =
     (if response_status error = Some 429 then
        new_Error ''Service temporarily unavailable due to high demand. Please try again in a few minutes.''
      else if response_status error = Some 403 then
        new_Error ''API access denied. Please check API key configuration.''
      else if code error = Some ''ECONNABORTED'' \<or> code error = Some ''ETIMEDOUT'' then
        new_Error ''Request timeout. Please try again.''
      else new_Error ''Failed to generate project suggestions. Please try again later.'')"

definition generateProjectSuggestions ::
  "int \<Rightarrow> int \<Rightarrow> rateLimiter \<Rightarrow> axios_outcome list \<Rightarrow>
   ((js_error + string) \<times> rateLimiter \<times> trace) option" where
  "generateProjectSuggestions now now' st script =
     (case suggestionsTry now now' st script of
        None \<Rightarrow> None
      | Some (Inl error, st1, tr) \<Rightarrow> Some (Inl (suggestionsCatch error), st1, tr)
      | Some (Inr suggestions, st1, tr) \<Rightarrow> Some (Inr suggestions, st1, tr))"


section \<open>The user collection (userSchema, src/server.js, lines 770-856)\<close>

text \<open>
  A user document with the fields the session code reads or writes. \<open>user_id\<close> is the
  document's \<open>_id\<close>; \<open>password\<close> holds the bcrypt hash. The collection is the list of
  its documents; queries return the first match. Database calls are taken to succeed.
\<close>

record refreshTokenEntry =
  token :: string
  createdAt :: int

record user =
  user_id :: nat
  name :: string
  email :: string
  password :: string
  role :: string
  isActive :: bool
  lastLogin :: "int option"
  refreshTokens :: "refreshTokenEntry list"

definition findOne :: "(user \<Rightarrow> bool) \<Rightarrow> user list \<Rightarrow> user option" where
  "findOne query users = find query users"

definition findById :: "nat \<Rightarrow> user list \<Rightarrow> user option" where
  "findById i users = findOne (\<lambda>u. user_id u = i) users"

text \<open>An update of one document: the first match is changed, no match changes nothing.\<close>

fun updateOne :: "(user \<Rightarrow> bool) \<Rightarrow> (user \<Rightarrow> user) \<Rightarrow> user list \<Rightarrow> user list" where
  "updateOne query f [] = []"
| "updateOne query f (u # users) =
     (if query u then f u # users else u # updateOne query f users)"

definition findByIdAndUpdate :: "nat \<Rightarrow> (user \<Rightarrow> user) \<Rightarrow> user list \<Rightarrow> user list" where
  "findByIdAndUpdate i f users = updateOne (\<lambda>u. user_id u = i) f users"

text \<open>\<open>user.save()\<close> of a loaded document writes it back under its \<open>_id\<close>.\<close>

definition save :: "user \<Rightarrow> user list \<Rightarrow> user list" where
  "save this users = updateOne (\<lambda>u. user_id u = user_id this) (\<lambda>_. this) users"

section \<open>The libraries jsonwebtoken and bcrypt, and the environment\<close>

text \<open>
  \<open>jwt.sign\<close>, \<open>jwt.verify\<close> and \<open>bcrypt.compare\<close> are library code: the handlers take
  them as arguments, so every theorem holds for any behaviour of the libraries.
  \<open>jwt_verify\<close> gets the token, the secret and the clock, and either throws an error,
  told apart by \<open>error.name\<close>, or returns the decoded payload.
\<close>

datatype jwt_error = JsonWebTokenError | TokenExpiredError | NotBeforeError

record jwt_payload =
  userId :: nat
  payload_email :: "string option"
  payload_role :: "string option"

record jsonwebtoken =
  jwt_sign :: "jwt_payload \<Rightarrow> string \<Rightarrow> string \<Rightarrow> int \<Rightarrow> string"
  jwt_verify :: "string \<Rightarrow> string \<Rightarrow> int \<Rightarrow> jwt_error + jwt_payload"

record env =
  JWT_SECRET :: string
  JWT_REFRESH_SECRET :: string
  JWT_EXPIRES_IN :: "string option"

text \<open>The methods of the schema (src/server.js, lines 829-856).\<close>

definition comparePassword :: "(string \<Rightarrow> string \<Rightarrow> bool) \<Rightarrow> user \<Rightarrow> string \<Rightarrow> bool" where
  "comparePassword bcrypt_compare this pw = bcrypt_compare pw (password this)"

definition generateAuthToken :: "jsonwebtoken \<Rightarrow> env \<Rightarrow> int \<Rightarrow> user \<Rightarrow> string" where
  "generateAuthToken jwt ev now this =
     jwt_sign jwt
       \<lparr>userId = user_id this, payload_email = Some (email this), payload_role = Some (role this)\<rparr>
       (JWT_SECRET ev)
       (case JWT_EXPIRES_IN ev of None \<Rightarrow> ''1h'' | Some x \<Rightarrow> if x = [] then ''1h'' else x)
       now"

text \<open>\<open>generateRefreshToken\<close> also pushes the new token on the loaded document.\<close>

definition generateRefreshToken :: "jsonwebtoken \<Rightarrow> env \<Rightarrow> int \<Rightarrow> user \<Rightarrow> string \<times> user" where
  "generateRefreshToken jwt ev now this =
     (let refreshToken =
            jwt_sign jwt \<lparr>userId = user_id this, payload_email = None, payload_role = None\<rparr>
              (JWT_REFRESH_SECRET ev) ''7d'' now
      in (refreshToken,
          this\<lparr>refreshTokens := refreshTokens this @ [\<lparr>token = refreshToken, createdAt = now\<rparr>]\<rparr>))"

section \<open>Responses\<close>

text \<open>
  What a handler sends: the status, the JSON fields \<open>success\<close>, \<open>message\<close>, \<open>token\<close> and
  \<open>user\<close> (\<open>id\<close>, \<open>name\<close>, \<open>email\<close>, \<open>role\<close>), and what it does to the \<open>refreshToken\<close>
  cookie.
\<close>

datatype cookie_action = NoCookie | SetRefreshCookie string | ClearRefreshCookie

datatype user_json = UserJson nat string string string

record http_response =
  statusCode :: nat
  success :: bool
  body_message :: "string option"
  body_token :: "string option"
  body_user :: "user_json option"
  cookie :: cookie_action

definition reject :: "nat \<Rightarrow> string \<Rightarrow> http_response" where
  "reject c msg =
     \<lparr>statusCode = c, success = False, body_message = Some msg, body_token = None,
      body_user = None, cookie = NoCookie\<rparr>"

definition user_view :: "user \<Rightarrow> user_json" where
  "user_view u = UserJson (user_id u) (name u) (email u) (role u)"

section \<open>The authentication and authorization middleware (src/unnamed/part_003)\<close>

text \<open>\<open>req.user\<close> as \<open>auth\<close> sets it: \<open>userId\<close>, \<open>email\<close>, \<open>role\<close>, \<open>name\<close>.\<close>

datatype req_user = ReqUser (req_userId: nat) (req_email: string) (req_role: string) (req_name: string)

text \<open>\<open>String.prototype.replace\<close> with a string pattern: the first occurrence only.\<close>

fun replace_first :: "string \<Rightarrow> string \<Rightarrow> string \<Rightarrow> string" where
  "replace_first pat rep [] = (if pat = [] then rep else [])"
| "replace_first pat rep (c # cs) =
     (if take (length pat) (c # cs) = pat then rep @ drop (length pat) (c # cs)
      else c # replace_first pat rep cs)"

text \<open>
  \<open>auth\<close> (lines 13-68): the result is the response sent, or \<open>req.user\<close> when \<open>next()\<close>
  is called.
\<close>

definition auth ::
  "jsonwebtoken \<Rightarrow> env \<Rightarrow> int \<Rightarrow> string option \<Rightarrow> user list \<Rightarrow> http_response + req_user" where
  "auth jwt ev now authorization users =
     (case map_option (replace_first ''Bearer '' []) authorization of
        None \<Rightarrow> Inl (reject 401 ''Access denied. No token provided.'')
      | Some tok \<Rightarrow>
          if tok = [] then Inl (reject 401 ''Access denied. No token provided.'')
          else
            (case jwt_verify jwt tok (JWT_SECRET ev) now of
               Inl JsonWebTokenError \<Rightarrow> Inl (reject 401 ''Invalid token.'')
             | Inl TokenExpiredError \<Rightarrow> Inl (reject 401 ''Token expired.'')
             | Inl NotBeforeError \<Rightarrow> Inl (reject 500 ''Authentication failed.'')
             | Inr decoded \<Rightarrow>
                 (case findById (userId decoded) users of
                    None \<Rightarrow> Inl (reject 401 ''Invalid token. User not found or inactive.'')
                  | Some u \<Rightarrow>
                      if \<not> isActive u
                      then Inl (reject 401 ''Invalid token. User not found or inactive.'')
                      else Inr (ReqUser (user_id u) (email u) (role u) (name u)))))"

text \<open>
  \<open>authorize(roles = [])\<close> (lines 71-89) returns a middleware: 401 without \<open>req.user\<close>,
  403 when \<open>roles.length && !roles.includes(req.user.role)\<close>, otherwise \<open>next()\<close>.
\<close>

datatype middleware_result = Next | Respond http_response

definition authorize :: "string list \<Rightarrow> req_user option \<Rightarrow> middleware_result" where
  "authorize roles requser =
     (case requser of
        None \<Rightarrow> Respond (reject 401 ''Authentication required.'')
      | Some u \<Rightarrow>
          if roles \<noteq> [] \<and> req_role u \<notin> set roles
          then Respond (reject 403 ''Insufficient permissions.'')
          else Next)"

section \<open>The session routes (src/routes/auth.js)\<close>

text \<open>
  Login, lines 137-185, after validation: the user is looked up by
  \<open>{ email, isActive: true }\<close>; on success the document, with the pushed refresh token
  and the new \<open>lastLogin\<close>, is saved and the refresh token is set as a cookie.
\<close>

definition authenticate ::
  "jsonwebtoken \<Rightarrow> (string \<Rightarrow> string \<Rightarrow> bool) \<Rightarrow> env \<Rightarrow> int \<Rightarrow> string \<Rightarrow> string \<Rightarrow> user list \<Rightarrow>
   http_response \<times> user list" where
  "authenticate jwt bcrypt_compare ev now em pw users =
     (case findOne (\<lambda>u. email u = em \<and> isActive u) users of
        None \<Rightarrow> (reject 401 ''Invalid credentials'', users)
      | Some u \<Rightarrow>
          if \<not> comparePassword bcrypt_compare u pw
          then (reject 401 ''Invalid credentials'', users)
          else
            (let accessToken = generateAuthToken jwt ev now u
             in case generateRefreshToken jwt ev now u of
                  (refreshToken, u1) \<Rightarrow>
                    (let u2 = u1\<lparr>lastLogin := Some now\<rparr>
                     in (\<lparr>statusCode = 200, success = True,
                          body_message = Some ''Login successful'',
                          body_token = Some accessToken,
                          body_user = Some (user_view u2),
                          cookie = SetRefreshCookie refreshToken\<rparr>,
                         save u2 users))))"

text \<open>The whole handler, lines 126-195: validation errors answer 400 first.\<close>

definition login ::
  "jsonwebtoken \<Rightarrow> (string \<Rightarrow> string \<Rightarrow> bool) \<Rightarrow> env \<Rightarrow> int \<Rightarrow> string list \<Rightarrow> string \<Rightarrow> string \<Rightarrow>
   user list \<Rightarrow> http_response \<times> user list" where
  "login jwt bcrypt_compare ev now errors em pw users =
     (if errors \<noteq> [] then (reject 400 ''Validation failed'', users)
      else authenticate jwt bcrypt_compare ev now em pw users)"

text \<open>
  \<open>req.cookies\<close>: it is \<open>undefined\<close> unless a cookie-parsing middleware ran before the
  handler (src/server.js mounts none), and otherwise an object whose \<open>refreshToken\<close>
  may be missing.
\<close>

datatype cookies = Cookies "string option"

text \<open>
  Refresh, lines 200-249. Reading \<open>req.cookies.refreshToken\<close> when \<open>req.cookies\<close> is
  \<open>undefined\<close> throws inside the \<open>try\<close>; a missing or empty cookie answers 401
  \<open>Refresh token not provided\<close>. Whatever is thrown, by that read or by \<open>jwt.verify\<close>,
  is caught by the handler's one \<open>catch\<close> block, which answers 401
  \<open>Invalid refresh token\<close>; so does a lookup by
  \<open>{ _id: decoded.userId, 'refreshTokens.token': refreshToken, isActive: true }\<close> that
  finds nothing. Nothing is written.
\<close>

definition refresh ::
  "jsonwebtoken \<Rightarrow> env \<Rightarrow> int \<Rightarrow> cookies option \<Rightarrow> user list \<Rightarrow> http_response \<times> user list" where
  "refresh jwt ev now req_cookies users =
     (case req_cookies of
        None \<Rightarrow> (reject 401 ''Invalid refresh token'', users)
      | Some (Cookies None) \<Rightarrow> (reject 401 ''Refresh token not provided'', users)
      | Some (Cookies (Some refreshToken)) \<Rightarrow>
          if refreshToken = [] then (reject 401 ''Refresh token not provided'', users)
          else
            (case jwt_verify jwt refreshToken (JWT_REFRESH_SECRET ev) now of
               Inl err \<Rightarrow> (reject 401 ''Invalid refresh token'', users)
             | Inr decoded \<Rightarrow>
                 (case findOne (\<lambda>u. user_id u = userId decoded
                                  \<and> refreshToken \<in> set (map token (refreshTokens u))
                                  \<and> isActive u) users of
                    None \<Rightarrow> (reject 401 ''Invalid refresh token'', users)
                  | Some u \<Rightarrow>
                      (\<lparr>statusCode = 200, success = True, body_message = None,
                        body_token = Some (generateAuthToken jwt ev now u),
                        body_user = Some (user_view u),
                        cookie = NoCookie\<rparr>,
                       users))))"

text \<open>
  Logout, lines 254-282, behind \<open>auth\<close>: \<open>$pull\<close> of the cookie's token. When
  \<open>req.cookies\<close> is \<open>undefined\<close> the read of line 256 throws inside the \<open>try\<close>, and the
  \<open>catch\<close> block answers 500 \<open>Logout failed\<close>: nothing is pulled and no cookie is
  cleared.
\<close>

definition logout :: "req_user \<Rightarrow> cookies option \<Rightarrow> user list \<Rightarrow> http_response \<times> user list" where
  "logout requser req_cookies users =
     (case req_cookies of
        None \<Rightarrow> (reject 500 ''Logout failed'', users)
      | Some (Cookies cookies_refreshToken) \<Rightarrow>
          (\<lparr>statusCode = 200, success = True, body_message = Some ''Logout successful'',
            body_token = None, body_user = None, cookie = ClearRefreshCookie\<rparr>,
           (case cookies_refreshToken of
              None \<Rightarrow> users
            | Some refreshToken \<Rightarrow>
                if refreshToken = [] then users
                else findByIdAndUpdate (req_userId requser)
                       (\<lambda>u. u\<lparr>refreshTokens :=
                                 filter (\<lambda>e. token e \<noteq> refreshToken) (refreshTokens u)\<rparr>)
                       users)))"

text \<open>Logout from all devices, lines 287-311, behind \<open>auth\<close>: \<open>$set: { refreshTokens: [] }\<close>.\<close>

definition logout_all :: "req_user \<Rightarrow> user list \<Rightarrow> http_response \<times> user list" where
  "logout_all requser users =
     (\<lparr>statusCode = 200, success = True, body_message = Some ''Logged out from all devices'',
       body_token = None, body_user = None, cookie = ClearRefreshCookie\<rparr>,
      findByIdAndUpdate (req_userId requser) (\<lambda>u. u\<lparr>refreshTokens := []\<rparr>) users)"


section \<open>Sample values\<close>

text \<open>Concrete inputs on which the theorems below are instantiated.\<close>

definition sample_calls :: "int list" where
  "sample_calls = map (\<lambda>i. 1000 + 100 * int i) [0..<60]"

definition sample_reply :: axios_response where
  "sample_reply =
     \<lparr>status = 200,
      data = \<lparr>candidates = Some [\<lparr>content = Some \<lparr>parts = Some [\<lparr>part_text = ''ok''\<rparr>]\<rparr>\<rparr>]\<rparr>\<rparr>"


definition http_error :: "nat \<Rightarrow> js_error" where
  "http_error n =
     \<lparr>message = ''Request failed with status code '' @ show_nat n,
      response_status = Some n, code = Some ''ERR_BAD_REQUEST''\<rparr>"

definition timeout_error :: "string \<Rightarrow> js_error" where
  "timeout_error c =
     \<lparr>message = ''timeout of 30000ms exceeded'', response_status = None, code = Some c\<rparr>"

definition sample_env :: env where
  "sample_env = \<lparr>JWT_SECRET = ''s1'', JWT_REFRESH_SECRET = ''s2'', JWT_EXPIRES_IN = None\<rparr>"

text \<open>
  A stand-in for jsonwebtoken that knows three tokens of user 7: the refresh tokens
  \<open>r7a\<close> (expires at 1000) and \<open>r7b\<close> (expires at 2000), and the access token \<open>a7\<close>
  (expires at 500).
\<close>

definition sample_jwt :: jsonwebtoken where
  "sample_jwt =
     \<lparr>jwt_sign = (\<lambda>p secret expiresIn now.
        (if secret = ''s2'' then ''r'' else ''a'') @ show_nat (userId p)),
      jwt_verify = (\<lambda>t secret now.
        if secret = ''s2'' \<and> t = ''r7a'' then
          (if now < 1000
           then Inr \<lparr>userId = 7, payload_email = None, payload_role = None\<rparr>
           else Inl TokenExpiredError)
        else if secret = ''s2'' \<and> t = ''r7b'' then
          (if now < 2000
           then Inr \<lparr>userId = 7, payload_email = None, payload_role = None\<rparr>
           else Inl TokenExpiredError)
        else if secret = ''s1'' \<and> t = ''a7'' then
          (if now < 500
           then Inr \<lparr>userId = 7, payload_email = Some ''a@b.com'', payload_role = Some ''admin''\<rparr>
           else Inl TokenExpiredError)
        else Inl JsonWebTokenError)\<rparr>"

definition sample_bcrypt :: "string \<Rightarrow> string \<Rightarrow> bool" where
  "sample_bcrypt pw hash = (pw = ''secret'' \<and> hash = ''$2b$12$hash'')"

definition sample_user :: user where
  "sample_user =
     \<lparr>user_id = 7, name = ''Ann'', email = ''a@b.com'', password = ''$2b$12$hash'',
      role = ''admin'', isActive = True, lastLogin = None,
      refreshTokens = [\<lparr>token = ''r7a'', createdAt = 0\<rparr>]\<rparr>"

section \<open>Properties of the rate limiter\<close>

lemma canMakeRequest_window:
  "t \<in> set (requests (snd (canMakeRequest now st))) \<Longrightarrow> now - t < windowMs"
  by (auto simp: canMakeRequest_def Let_def windowMs_def split: if_splits)

lemma canMakeRequest_length:
  assumes "length (requests st) \<le> maxRequests"
  shows "length (requests (snd (canMakeRequest now st))) \<le> maxRequests"
proof -
  have "length (filter (\<lambda>time. now - time < windowMs) (requests st)) \<le> maxRequests"
    using length_filter_le assms by (rule le_trans)
  then show ?thesis
    by (auto simp: canMakeRequest_def Let_def split: if_splits)
qed

lemma canMakeRequest_subset:
  "set (requests (snd (canMakeRequest now st))) \<subseteq> insert now (set (requests st))"
  by (auto simp: canMakeRequest_def Let_def split: if_splits)

lemma canMakeRequest_rejected:
  "\<not> fst (canMakeRequest now st) \<Longrightarrow>
   requests (snd (canMakeRequest now st)) =
     filter (\<lambda>time. now - time < windowMs) (requests st)"
  by (auto simp: canMakeRequest_def Let_def split: if_splits)

lemma canMakeRequests_length:
  "length (requests st) \<le> maxRequests \<Longrightarrow>
   length (requests (snd (canMakeRequests nows st))) \<le> maxRequests"
proof (induction nows arbitrary: st)
  case Nil
  then show ?case by simp
next
  case (Cons now nows)
  obtain ok st1 where c: "canMakeRequest now st = (ok, st1)"
    by (cases "canMakeRequest now st")
  with canMakeRequest_length [OF Cons.prems, of now]
  have "length (requests st1) \<le> maxRequests" by simp
  from Cons.IH [OF this] c show ?case by (auto split: prod.splits)
qed

lemma canMakeRequests_subset:
  "set (requests (snd (canMakeRequests nows st))) \<subseteq> set nows \<union> set (requests st)"
proof (induction nows arbitrary: st)
  case Nil
  then show ?case by simp
next
  case (Cons now nows)
  obtain ok st1 where c: "canMakeRequest now st = (ok, st1)"
    by (cases "canMakeRequest now st")
  with canMakeRequest_subset [of now st]
  have "set (requests st1) \<subseteq> insert now (set (requests st))" by simp
  with Cons.IH [of st1] c show ?case by (auto split: prod.splits)
qed

lemma sorted_snoc_le: "sorted (xs @ [y :: int]) \<Longrightarrow> x \<in> set xs \<Longrightarrow> x \<le> y"
  by (simp add: sorted_append)

lemma canMakeRequest_admit:
  assumes "length (requests st) < maxRequests"
      and "\<forall>b \<in> set (requests st). now - b < windowMs"
  shows "canMakeRequest now st = (True, st\<lparr>requests := requests st @ [now]\<rparr>)"
proof -
  have "filter (\<lambda>time. now - time < windowMs) (requests st) = requests st"
    using assms(2) by (simp add: filter_id_conv)
  with assms(1) show ?thesis by (simp add: canMakeRequest_def Let_def)
qed

lemma canMakeRequest_reject:
  assumes "length (requests st) = maxRequests"
      and "\<forall>b \<in> set (requests st). now - b < windowMs"
  shows "canMakeRequest now st = (False, st)"
proof -
  have "filter (\<lambda>time. now - time < windowMs) (requests st) = requests st"
    using assms(2) by (simp add: filter_id_conv)
  with assms(1) show ?thesis by (simp add: canMakeRequest_def Let_def)
qed

lemma canMakeRequest_elapsed:
  assumes "0 < maxRequests" and "\<forall>b \<in> set (requests st). windowMs \<le> now - b"
  shows "canMakeRequest now st = (True, st\<lparr>requests := [now]\<rparr>)"
proof -
  have "filter (\<lambda>time. now - time < windowMs) (requests st) = []"
    using assms(2) by (auto simp: filter_empty_conv)
  with assms(1) show ?thesis by (simp add: canMakeRequest_def Let_def)
qed

lemma canMakeRequests_admit_all:
  assumes "length (requests st) + length nows \<le> maxRequests"
      and "\<forall>a \<in> set nows. \<forall>b \<in> set (requests st) \<union> set nows. a - b < windowMs"
  shows "canMakeRequests nows st =
           (replicate (length nows) True, st\<lparr>requests := requests st @ nows\<rparr>)"
  using assms
proof (induction nows arbitrary: st)
  case Nil
  then show ?case by simp
next
  case (Cons now nows)
  let ?st1 = "st\<lparr>requests := requests st @ [now]\<rparr>"
  have adm: "canMakeRequest now st = (True, ?st1)"
    using Cons.prems by (intro canMakeRequest_admit) auto
  have "canMakeRequests nows ?st1 =
          (replicate (length nows) True, ?st1\<lparr>requests := requests ?st1 @ nows\<rparr>)"
    using Cons.prems by (intro Cons.IH) auto
  with adm show ?case by simp
qed

text \<open>
  The limiter on a full window. Starting from the empty limiter, 60 calls whose times
  lie within one window (any two less than \<open>windowMs\<close> apart) are all admitted and all
  recorded. A 61st check within the window of every recorded time is refused, the
  limiter is left as it was, and the error built by the admission check of the client
  functions carries \<open>Math.ceil((windowMs - (now' - oldest)) / 1000)\<close> seconds, at least
  one while the oldest call is inside the window. A check made when the window has
  elapsed for every recorded time is admitted again, and the old times are pruned.
\<close>

lemma rate_window:
  assumes n: "length nows = maxRequests"
      and same: "\<forall>a \<in> set nows. \<forall>b \<in> set nows. a - b < windowMs"
      and next_in: "\<forall>b \<in> set nows. now - b < windowMs"
      and oldest: "hd nows \<noteq> 0"
      and after: "\<forall>b \<in> set nows. windowMs \<le> later - b"
  shows "canMakeRequests nows rateLimiter_init =
           (replicate maxRequests True, \<lparr>requests = nows\<rparr>)
       \<and> rateLimitCheck now now' \<lparr>requests = nows\<rparr> =
           (Inl (new_Error (''Rate limit exceeded. Please try again in '' @
                   show_int (ceil_div (windowMs - (now' - hd nows)) 1000) @ '' seconds.'')),
            \<lparr>requests = nows\<rparr>)
       \<and> (now' - hd nows < windowMs \<longrightarrow>
            1 \<le> ceil_div (windowMs - (now' - hd nows)) 1000)
       \<and> canMakeRequest later \<lparr>requests = nows\<rparr> = (True, \<lparr>requests = [later]\<rparr>)"
proof -
  have a: "canMakeRequests nows rateLimiter_init =
             (replicate maxRequests True, \<lparr>requests = nows\<rparr>)"
    using canMakeRequests_admit_all [of rateLimiter_init nows] n same
    by (simp add: rateLimiter_init_def)
  have rej: "canMakeRequest now \<lparr>requests = nows\<rparr> = (False, \<lparr>requests = nows\<rparr>)"
    using n next_in by (intro canMakeRequest_reject) auto
  have ne: "nows \<noteq> []" using n by (auto simp: maxRequests_def)
  then have d: "getRetryDelay now' \<lparr>requests = nows\<rparr> = windowMs - (now' - hd nows)"
    using oldest by (cases nows) (auto simp: getRetryDelay_def)
  have b: "rateLimitCheck now now' \<lparr>requests = nows\<rparr> =
           (Inl (new_Error (''Rate limit exceeded. Please try again in '' @
                   show_int (ceil_div (windowMs - (now' - hd nows)) 1000) @ '' seconds.'')),
            \<lparr>requests = nows\<rparr>)"
    by (simp add: rateLimitCheck_def rej d)
  have c: "now' - hd nows < windowMs \<longrightarrow>
             1 \<le> ceil_div (windowMs - (now' - hd nows)) 1000"
    by (auto simp: ceil_div_def)
  have e: "canMakeRequest later \<lparr>requests = nows\<rparr> = (True, \<lparr>requests = [later]\<rparr>)"
    using canMakeRequest_elapsed [of "\<lparr>requests = nows\<rparr>" later] after
    by (simp add: maxRequests_def)
  from a b c e show ?thesis by (simp only: simp_thms)
qed

lemma rate_window_sample:
  "canMakeRequests sample_calls rateLimiter_init =
     (replicate 60 True, \<lparr>requests = sample_calls\<rparr>)
 \<and> rateLimitCheck 6950 6951 \<lparr>requests = sample_calls\<rparr> =
     (Inl (new_Error ''Rate limit exceeded. Please try again in 55 seconds.''),
      \<lparr>requests = sample_calls\<rparr>)
 \<and> canMakeRequest 70000 \<lparr>requests = sample_calls\<rparr> = (True, \<lparr>requests = [70000]\<rparr>)"
proof -
  have h1: "length sample_calls = maxRequests"
    by (simp add: sample_calls_def maxRequests_def)
  have h2: "\<forall>a \<in> set sample_calls. \<forall>b \<in> set sample_calls. a - b < windowMs"
    by (auto simp: sample_calls_def windowMs_def)
  have h3: "\<forall>b \<in> set sample_calls. 6950 - b < windowMs"
    by (auto simp: sample_calls_def windowMs_def)
  have hd: "hd sample_calls = 1000"
    by (simp add: sample_calls_def hd_map)
  have h4: "hd sample_calls \<noteq> 0"
    by (simp add: hd)
  have h5: "\<forall>b \<in> set sample_calls. windowMs \<le> 70000 - b"
    by (auto simp: sample_calls_def windowMs_def)
  have s: "show_int 55 = ''55''"
    by (simp add: show_int_def show_nat.simps)
  from rate_window [OF h1 h2 h3 h4 h5, of 6951] show ?thesis
    by (simp add: hd windowMs_def ceil_div_def maxRequests_def s)
qed

text \<open>
  The window slides: on the sample, at time 61000 only the oldest time has left the
  window, so one more call is admitted and the next is refused.
\<close>

lemma window_slides:
  "canMakeRequests [61000, 61001] \<lparr>requests = sample_calls\<rparr> =
     ([True, False], \<lparr>requests = tl sample_calls @ [61000]\<rparr>)"
  by code_simp

text \<open>
  C10. After an admission check made in any state the limiter can reach from its
  initial state (by earlier checks at arbitrary clock readings), every stored time
  lies less than \<open>windowMs\<close> before the current time, and not after it when the clock
  does not run backwards; the list holds at most \<open>maxRequests\<close> times; and a refused
  check stores the pruned list only, with no time appended.
\<close>

theorem window_invariant:
  "case canMakeRequest now (snd (canMakeRequests nows rateLimiter_init)) of
     (ok, st') \<Rightarrow>
       (\<forall>t \<in> set (requests st'). now - t < windowMs)
     \<and> (sorted (nows @ [now]) \<longrightarrow> (\<forall>t \<in> set (requests st'). t \<le> now))
     \<and> length (requests st') \<le> maxRequests
     \<and> (\<not> ok \<longrightarrow>
          requests st' =
            filter (\<lambda>time. now - time < windowMs)
              (requests (snd (canMakeRequests nows rateLimiter_init))))"
proof -
  define st where "st = snd (canMakeRequests nows rateLimiter_init)"
  obtain ok st' where c: "canMakeRequest now st = (ok, st')"
    by (cases "canMakeRequest now st")
  have len0: "length (requests st) \<le> maxRequests"
    unfolding st_def by (rule canMakeRequests_length) (simp add: rateLimiter_init_def)
  have sub0: "set (requests st) \<subseteq> set nows"
    unfolding st_def using canMakeRequests_subset [of nows rateLimiter_init]
    by (simp add: rateLimiter_init_def)
  have w: "\<forall>t \<in> set (requests st'). now - t < windowMs"
    using canMakeRequest_window [of _ now st] c by simp
  have s: "set (requests st') \<subseteq> insert now (set nows)"
    using canMakeRequest_subset [of now st] c sub0 by auto
  have m: "sorted (nows @ [now]) \<longrightarrow> (\<forall>t \<in> set (requests st'). t \<le> now)"
    using s sorted_snoc_le [of nows now] by auto
  have l: "length (requests st') \<le> maxRequests"
    using canMakeRequest_length [OF len0, of now] c by simp
  have r: "\<not> ok \<longrightarrow>
             requests st' = filter (\<lambda>time. now - time < windowMs) (requests st)"
    using canMakeRequest_rejected [of now st] c by simp
  from w m l r show ?thesis
    by (simp only: st_def [symmetric] c prod.case simp_thms)
qed

theorem window_invariant_witness:
  "canMakeRequest 6950 (snd (canMakeRequests sample_calls rateLimiter_init)) =
     (False, \<lparr>requests = sample_calls\<rparr>)
 \<and> list_all (\<lambda>t. 6950 - t < windowMs \<and> t \<le> 6950) sample_calls
 \<and> length sample_calls \<le> maxRequests
 \<and> sample_calls = filter (\<lambda>time. 6950 - time < windowMs) sample_calls"
proof -
  have run: "canMakeRequests sample_calls rateLimiter_init =
               (replicate 60 True, \<lparr>requests = sample_calls\<rparr>)"
    using canMakeRequests_admit_all [of rateLimiter_init sample_calls]
    by (auto simp: sample_calls_def rateLimiter_init_def maxRequests_def windowMs_def)
  have rej: "canMakeRequest 6950 \<lparr>requests = sample_calls\<rparr> =
               (False, \<lparr>requests = sample_calls\<rparr>)"
    by (rule canMakeRequest_reject)
      (auto simp: sample_calls_def maxRequests_def windowMs_def)
  have srt: "sorted (sample_calls @ [6950])"
    by (auto simp: sample_calls_def sorted_append sorted_map intro!: sorted_wrt_mono_rel [of _ "(<)"])
  from window_invariant [of 6950 sample_calls] srt show ?thesis
    by (simp add: run rej list_all_iff)
qed

section \<open>Properties of the retrying call\<close>

lemma rateLimitCheck_admit:
  "canMakeRequest now st = (True, st1) \<Longrightarrow> rateLimitCheck now now' st = (Inr (), st1)"
  by (simp add: rateLimitCheck_def)

lemma canMakeRequest_first: "canMakeRequest 1000 rateLimiter_init = (True, \<lparr>requests = [1000]\<rparr>)"
  by (simp add: canMakeRequest_def rateLimiter_init_def maxRequests_def)

lemma retryLoop_throw:
  "retryCount < maxRetries \<Longrightarrow> response_status e \<noteq> Some 429 \<Longrightarrow>
   retryLoop (Rejected e # rest) retryCount resp tr =
     Some (Inl e, tr\<lparr>attempts := attempts tr + 1\<rparr>)"
  by simp

lemma retryLoop_retry:
  "retryCount + 1 < maxRetries \<Longrightarrow> response_status e = Some 429 \<Longrightarrow>
   retryLoop (Rejected e # rest) retryCount resp tr =
     retryLoop rest (retryCount + 1) resp
       (tr\<lparr>attempts := attempts tr + 1, delays := delays tr @ [baseDelay * 2 ^ retryCount]\<rparr>)"
  by (simp add: Let_def)

lemma retryLoop_exhausted:
  "retryCount + 1 = maxRetries \<Longrightarrow> response_status e = Some 429 \<Longrightarrow>
   retryLoop (Rejected e # rest) retryCount resp tr =
     Some (Inl e, tr\<lparr>attempts := attempts tr + 1\<rparr>)"
  by (simp add: Let_def)

lemma suggestions_first_rejected:
  assumes "canMakeRequest now st = (True, st1)" and "response_status e \<noteq> Some 429"
  shows "generateProjectSuggestions now now' st (Rejected e # rest) =
           Some (Inl (suggestionsCatch e), st1, \<lparr>attempts = 1, delays = []\<rparr>)"
  using assms
  by (simp add: generateProjectSuggestions_def suggestionsTry_def rateLimitCheck_admit
      maxRetries_def trace_init_def)

text \<open>
  A refused admission inside \<open>generateProjectSuggestions\<close>: the error of the check has
  no HTTP status and no code, so the function's own \<open>catch\<close> block replaces it by the
  general failure message; no call is attempted. (\<open>generateContent\<close>,
  \<open>analyzeTechStack\<close> and \<open>generateSEOContent\<close> rethrow the error of the check as it
  is.)
\<close>

lemma suggestions_refused:
  assumes "canMakeRequest now st = (False, st1)"
  shows "generateProjectSuggestions now now' st script =
           Some (Inl (new_Error ''Failed to generate project suggestions. Please try again later.''),
                 st1, trace_init)"
  using assms
  by (simp add: generateProjectSuggestions_def suggestionsTry_def rateLimitCheck_def
      suggestionsCatch_def new_Error_def Let_def)

text \<open>
  C4. The limiter does what the claim says (\<open>rate_window\<close>), but the refusal does not
  reach the caller of \<open>generateProjectSuggestions\<close> as a rate-limit error. With the 60
  sample calls admitted and recorded, the 61st call at time 6950 is refused; the
  admission check builds \<open>Rate limit exceeded. Please try again in 55 seconds.\<close>, and
  the function throws \<open>Failed to generate project suggestions. Please try again
  later.\<close>, with no retry-after, having attempted no request.
\<close>

theorem rate_limit_error_replaced:
  "canMakeRequests sample_calls rateLimiter_init =
     (replicate 60 True, \<lparr>requests = sample_calls\<rparr>)
 \<and> rateLimitCheck 6950 6951 \<lparr>requests = sample_calls\<rparr> =
     (Inl (new_Error ''Rate limit exceeded. Please try again in 55 seconds.''),
      \<lparr>requests = sample_calls\<rparr>)
 \<and> generateProjectSuggestions 6950 6951 \<lparr>requests = sample_calls\<rparr> [Resolved sample_reply] =
     Some (Inl (new_Error ''Failed to generate project suggestions. Please try again later.''),
           \<lparr>requests = sample_calls\<rparr>, \<lparr>attempts = 0, delays = []\<rparr>)"
proof -
  have rej: "canMakeRequest 6950 \<lparr>requests = sample_calls\<rparr> =
               (False, \<lparr>requests = sample_calls\<rparr>)"
    by (rule canMakeRequest_reject)
      (auto simp: sample_calls_def maxRequests_def windowMs_def)
  from rate_window_sample suggestions_refused [OF rej, of 6951 "[Resolved sample_reply]"]
  show ?thesis by (simp add: trace_init_def)
qed

text \<open>
  C2, as the code has it. A call that fails with a connect or read timeout (no
  response, \<open>error.code\<close> \<open>ECONNABORTED\<close> or \<open>ETIMEDOUT\<close>) is not retried: after that one
  attempt, with no delay, the error \<open>Request timeout. Please try again.\<close> is thrown, and
  the loop throws a timeout at once at any retry count. The backoff is applied to HTTP
  429: a 429 on the first or second attempt is followed by a delay of
  \<open>baseDelay * 2 ^ retryCount\<close>, that is \<open>baseDelay\<close> times two to the attempt number
  minus one, and by another attempt; a 429 on the third attempt is thrown.
\<close>

theorem timeout_not_retried:
  assumes "canMakeRequest now st = (True, st1)"
      and "response_status e = None"
      and "code e = Some ''ECONNABORTED'' \<or> code e = Some ''ETIMEDOUT''"
  shows "generateProjectSuggestions now now' st (Rejected e # rest) =
           Some (Inl (new_Error ''Request timeout. Please try again.''), st1,
                 \<lparr>attempts = 1, delays = []\<rparr>)
       \<and> (retryCount < maxRetries \<longrightarrow>
            retryLoop (Rejected e # rest) retryCount resp tr =
              Some (Inl e, tr\<lparr>attempts := attempts tr + 1\<rparr>))
       \<and> (response_status e' = Some 429 \<longrightarrow> retryCount + 1 < maxRetries \<longrightarrow>
            retryLoop (Rejected e' # rest) retryCount resp tr =
              retryLoop rest (retryCount + 1) resp
                (tr\<lparr>attempts := attempts tr + 1,
                    delays := delays tr @ [baseDelay * 2 ^ retryCount]\<rparr>))
       \<and> (response_status e' = Some 429 \<longrightarrow> retryCount + 1 = maxRetries \<longrightarrow>
            retryLoop (Rejected e' # rest) retryCount resp tr =
              Some (Inl e', tr\<lparr>attempts := attempts tr + 1\<rparr>))"
proof -
  have ne: "response_status e \<noteq> Some 429" using assms(2) by simp
  have c: "suggestionsCatch e = new_Error ''Request timeout. Please try again.''"
    using assms(2,3) by (auto simp: suggestionsCatch_def)
  show ?thesis
    using suggestions_first_rejected [OF assms(1) ne, of now' rest] c
      retryLoop_throw [OF _ ne, of retryCount rest resp tr]
      retryLoop_retry [of retryCount e' rest resp tr]
      retryLoop_exhausted [of retryCount e' rest resp tr]
    by (simp only: simp_thms) blast
qed

theorem timeout_not_retried_witness:
  "generateProjectSuggestions 1000 1000 rateLimiter_init [Rejected (timeout_error ''ETIMEDOUT'')] =
     Some (Inl (new_Error ''Request timeout. Please try again.''), \<lparr>requests = [1000]\<rparr>,
           \<lparr>attempts = 1, delays = []\<rparr>)
 \<and> retryLoop [Rejected (timeout_error ''ETIMEDOUT'')] 1 None trace_init =
     Some (Inl (timeout_error ''ETIMEDOUT''), \<lparr>attempts = 1, delays = []\<rparr>)
 \<and> retryLoop [Rejected (http_error 429)] 1 None trace_init =
     retryLoop [] 2 None \<lparr>attempts = 1, delays = [2000]\<rparr>
 \<and> retryLoop [] 2 None \<lparr>attempts = 1, delays = [2000]\<rparr> = None"
proof -
  have h2: "response_status (timeout_error ''ETIMEDOUT'') = None"
    by (simp add: timeout_error_def)
  have h3: "code (timeout_error ''ETIMEDOUT'') = Some ''ECONNABORTED'' \<or>
            code (timeout_error ''ETIMEDOUT'') = Some ''ETIMEDOUT''"
    by (simp add: timeout_error_def)
  from timeout_not_retried [OF canMakeRequest_first h2 h3,
      of 1000 "[]" 1 None trace_init "http_error 429"]
  show ?thesis
    by (simp add: maxRetries_def baseDelay_def trace_init_def http_error_def)
qed

text \<open>
  The claim of C2 itself fails: the first call times out, the second would succeed,
  and the client throws the timeout after one attempt and no delay.
\<close>

theorem timeout_retry_counterexample:
  "generateProjectSuggestions 1000 1000 rateLimiter_init
     [Rejected (timeout_error ''ECONNABORTED''), Resolved sample_reply] =
   Some (Inl (new_Error ''Request timeout. Please try again.''),
         \<lparr>requests = [1000]\<rparr>, \<lparr>attempts = 1, delays = []\<rparr>)"
  by (simp add: generateProjectSuggestions_def suggestionsTry_def rateLimitCheck_def
      canMakeRequest_def rateLimiter_init_def maxRequests_def maxRetries_def trace_init_def
      timeout_error_def suggestionsCatch_def Let_def)

text \<open>
  C3, as the code has it. When an admitted call is answered with HTTP 429 on the first
  two attempts and with a status 200 whose body holds a text on the third, the text is
  returned after three attempts and the delays \<open>baseDelay\<close> and \<open>2 * baseDelay\<close>, a total
  of at least \<open>baseDelay + 2 * baseDelay\<close>. When all three attempts are answered with
  429, the error \<open>Service temporarily unavailable due to high demand. Please try again
  in a few minutes.\<close> is thrown after exactly three attempts.
\<close>

theorem retry_429:
  assumes "canMakeRequest now st = (True, st1)"
      and "response_status e1 = Some 429" and "response_status e2 = Some 429"
  shows "(status r = 200 \<longrightarrow> extractSuggestions (data r) = Inr s \<longrightarrow>
            generateProjectSuggestions now now' st
              (Rejected e1 # Rejected e2 # Resolved r # rest) =
            Some (Inr s, st1, \<lparr>attempts = 3, delays = [baseDelay, 2 * baseDelay]\<rparr>))
       \<and> baseDelay + 2 * baseDelay \<le> sum_list [baseDelay, 2 * baseDelay]
       \<and> (response_status e3 = Some 429 \<longrightarrow>
            generateProjectSuggestions now now' st
              (Rejected e1 # Rejected e2 # Rejected e3 # rest) =
            Some (Inl (new_Error
              ''Service temporarily unavailable due to high demand. Please try again in a few minutes.''),
                  st1, \<lparr>attempts = 3, delays = [baseDelay, 2 * baseDelay]\<rparr>))"
  using assms
  by (simp add: generateProjectSuggestions_def suggestionsTry_def rateLimitCheck_admit
      maxRetries_def trace_init_def Let_def suggestionsCatch_def)

theorem retry_429_witness:
  "generateProjectSuggestions 1000 1000 rateLimiter_init
     [Rejected (http_error 429), Rejected (http_error 429), Resolved sample_reply] =
     Some (Inr ''ok'', \<lparr>requests = [1000]\<rparr>, \<lparr>attempts = 3, delays = [1000, 2000]\<rparr>)
 \<and> generateProjectSuggestions 1000 1000 rateLimiter_init
     [Rejected (http_error 429), Rejected (http_error 429), Rejected (http_error 429)] =
     Some (Inl (new_Error
       ''Service temporarily unavailable due to high demand. Please try again in a few minutes.''),
           \<lparr>requests = [1000]\<rparr>, \<lparr>attempts = 3, delays = [1000, 2000]\<rparr>)"
proof -
  have h: "response_status (http_error 429) = Some 429"
    by (simp add: http_error_def)
  have r: "status sample_reply = 200" "extractSuggestions (data sample_reply) = Inr ''ok''"
    by (simp_all add: sample_reply_def extractSuggestions_def)
  from retry_429 [OF canMakeRequest_first h h, of sample_reply "''ok''" 1000 "[]" "http_error 429"]
  show ?thesis
    by (simp add: h r baseDelay_def)
qed

text \<open>
  The claim of C3 itself fails for the other transient failure the specification
  names, the timeout: two timeouts and then a success end after the first attempt, with
  the timeout error and no delay.
\<close>

theorem retry_transient_counterexample:
  "generateProjectSuggestions 1000 1000 rateLimiter_init
     [Rejected (timeout_error ''ETIMEDOUT''), Rejected (timeout_error ''ETIMEDOUT''),
      Resolved sample_reply] =
   Some (Inl (new_Error ''Request timeout. Please try again.''),
         \<lparr>requests = [1000]\<rparr>, \<lparr>attempts = 1, delays = []\<rparr>)"
  by (simp add: generateProjectSuggestions_def suggestionsTry_def rateLimitCheck_def
      canMakeRequest_def rateLimiter_init_def maxRequests_def maxRetries_def trace_init_def
      timeout_error_def suggestionsCatch_def Let_def)




section \<open>Properties of the session routes and the middleware\<close>

lemma findOne_None_iff: "findOne q users = None \<longleftrightarrow> (\<forall>u \<in> set users. \<not> q u)"
  by (auto simp: findOne_def find_None_iff)

lemma findOne_SomeD: "findOne q users = Some u \<Longrightarrow> u \<in> set users \<and> q u"
  by (auto simp: findOne_def find_Some_iff)

lemma updateOne_set:
  assumes "distinct (map user_id users)"
      and "v \<in> set (updateOne (\<lambda>u. user_id u = p) f users)"
      and "user_id v = p"
      and "\<And>u. user_id (f u) = user_id u"
  shows "\<exists>u \<in> set users. v = f u"
  using assms(1,2)
proof (induction users)
  case Nil
  then show ?case by simp
next
  case (Cons a users)
  show ?case
  proof (cases "user_id a = p")
    case True
    with Cons.prems have "v = f a \<or> v \<in> set users" by simp
    moreover have "v \<notin> set users"
      using Cons.prems(1) True assms(3) by (auto simp: image_iff)
    ultimately show ?thesis by simp
  next
    case False
    with Cons.prems assms(3) have "v \<in> set (updateOne (\<lambda>u. user_id u = p) f users)"
      by auto
    with Cons.IH Cons.prems(1) show ?thesis by auto
  qed
qed

lemma find_other_id:
  "i \<noteq> p \<Longrightarrow>
   map_option (\<lambda>u. if user_id u = p then f u else u) (find (\<lambda>u. user_id u = i) users) =
   find (\<lambda>u. user_id u = i) users"
  by (induction users) auto

lemma findById_updateOne:
  assumes "\<And>u. user_id (f u) = user_id u"
  shows "findById i (updateOne (\<lambda>u. user_id u = p) f users) =
           map_option (\<lambda>u. if user_id u = p then f u else u) (findById i users)"
proof (induction users)
  case Nil
  then show ?case by (simp add: findById_def findOne_def)
next
  case (Cons a users)
  show ?case
  proof (cases "user_id a = p")
    case True
    then show ?thesis
      using find_other_id [of i p f users]
      by (auto simp: findById_def findOne_def assms)
  next
    case False
    with Cons.IH show ?thesis
      by (auto simp: findById_def findOne_def assms)
  qed
qed

lemma auth_findByIdAndUpdate:
  assumes "\<And>u. user_id (f u) = user_id u" and "\<And>u. isActive (f u) = isActive u"
      and "\<And>u. email (f u) = email u" and "\<And>u. role (f u) = role u"
      and "\<And>u. name (f u) = name u"
  shows "auth jwt ev now hdr (findByIdAndUpdate p f users) = auth jwt ev now hdr users"
  by (auto simp: auth_def findByIdAndUpdate_def findById_updateOne assms
      split: option.splits sum.splits jwt_error.splits)

text \<open>
  C1, as the code has it. A refresh call whose token \<open>jwt.verify\<close> rejects as expired
  is answered 401 \<open>Invalid refresh token\<close>, and so is a call whose token verifies but
  is not listed in the store of the user it names: the two failures get the same
  response, and nothing is written.
\<close>

theorem refresh_failures_alike:
  assumes "t \<noteq> []"
  shows "(jwt_verify jwt t (JWT_REFRESH_SECRET ev) now = Inl TokenExpiredError \<longrightarrow>
            refresh jwt ev now (Some (Cookies (Some t))) users = (reject 401 ''Invalid refresh token'', users))
       \<and> (jwt_verify jwt t (JWT_REFRESH_SECRET ev) now = Inr decoded \<longrightarrow>
            (\<forall>u \<in> set users. user_id u = userId decoded \<longrightarrow>
                 t \<notin> set (map token (refreshTokens u))) \<longrightarrow>
            refresh jwt ev now (Some (Cookies (Some t))) users = (reject 401 ''Invalid refresh token'', users))"
proof (intro conjI impI)
  assume "jwt_verify jwt t (JWT_REFRESH_SECRET ev) now = Inl TokenExpiredError"
  with assms
  show "refresh jwt ev now (Some (Cookies (Some t))) users = (reject 401 ''Invalid refresh token'', users)"
    by (simp add: refresh_def)
next
  assume v: "jwt_verify jwt t (JWT_REFRESH_SECRET ev) now = Inr decoded"
    and absent: "\<forall>u \<in> set users. user_id u = userId decoded \<longrightarrow>
                   t \<notin> set (map token (refreshTokens u))"
  from absent have "findOne (\<lambda>u. user_id u = userId decoded
                                  \<and> t \<in> set (map token (refreshTokens u))
                                  \<and> isActive u) users = None"
    by (auto simp: findOne_None_iff)
  with assms v
  show "refresh jwt ev now (Some (Cookies (Some t))) users = (reject 401 ''Invalid refresh token'', users)"
    by (simp add: refresh_def)
qed

theorem refresh_failures_alike_witness:
  "refresh sample_jwt sample_env 2500 (Some (Cookies (Some ''r7b''))) [sample_user] =
     (reject 401 ''Invalid refresh token'', [sample_user])
 \<and> refresh sample_jwt sample_env 10 (Some (Cookies (Some ''r7b''))) [sample_user] =
     (reject 401 ''Invalid refresh token'', [sample_user])"
proof -
  have ne: "''r7b'' \<noteq> []" by simp
  have expired: "jwt_verify sample_jwt ''r7b'' (JWT_REFRESH_SECRET sample_env) 2500 =
                   Inl TokenExpiredError"
    by (simp add: sample_jwt_def sample_env_def)
  have verified: "jwt_verify sample_jwt ''r7b'' (JWT_REFRESH_SECRET sample_env) 10 =
                    Inr \<lparr>userId = 7, payload_email = None, payload_role = None\<rparr>"
    by (simp add: sample_jwt_def sample_env_def)
  have absent: "\<forall>u \<in> set [sample_user].
                  user_id u = userId \<lparr>userId = 7, payload_email = None, payload_role = None\<rparr> \<longrightarrow>
                  ''r7b'' \<notin> set (map token (refreshTokens u))"
    by (simp add: sample_user_def)
  from refresh_failures_alike [OF ne, where jwt = sample_jwt and ev = sample_env
         and now = 2500 and users = "[sample_user]"]
       refresh_failures_alike [OF ne, where jwt = sample_jwt and ev = sample_env
         and now = 10 and users = "[sample_user]"
         and decoded = "\<lparr>userId = 7, payload_email = None, payload_role = None\<rparr>"]
       expired verified absent
  show ?thesis by simp
qed

text \<open>
  The claim of C1 itself fails. At time 1500 the token \<open>r7a\<close> is listed and expired,
  and the token \<open>r7b\<close> verifies and is not listed; the two calls get one and the same
  response, so the caller cannot tell an expired token from a revoked one.
\<close>

theorem refresh_expired_counterexample:
  "jwt_verify sample_jwt ''r7a'' (JWT_REFRESH_SECRET sample_env) 1500 = Inl TokenExpiredError
 \<and> jwt_verify sample_jwt ''r7b'' (JWT_REFRESH_SECRET sample_env) 1500 =
     Inr \<lparr>userId = 7, payload_email = None, payload_role = None\<rparr>
 \<and> refresh sample_jwt sample_env 1500 (Some (Cookies (Some ''r7a''))) [sample_user] =
     (reject 401 ''Invalid refresh token'', [sample_user])
 \<and> refresh sample_jwt sample_env 1500 (Some (Cookies (Some ''r7b''))) [sample_user] =
     (reject 401 ''Invalid refresh token'', [sample_user])"
  by (simp add: refresh_def sample_jwt_def sample_env_def sample_user_def findOne_def)

text \<open>
  C5. With unique e-mail addresses, a login for the address of a user whose
  \<open>isActive\<close> is false is answered 401 \<open>Invalid credentials\<close> and writes nothing,
  whatever password is supplied and whatever \<open>bcrypt.compare\<close> would say about it.
\<close>

theorem inactive_cannot_authenticate:
  assumes "u \<in> set users" and "\<not> isActive u" and "distinct (map email users)"
  shows "authenticate jwt bcrypt_compare ev now (email u) pw users =
           (reject 401 ''Invalid credentials'', users)"
proof -
  have "inj_on email (set users)" using assms(3) by (simp add: distinct_map)
  then have "\<forall>v \<in> set users. email v = email u \<longrightarrow> v = u"
    using assms(1) by (auto dest: inj_onD)
  then have "findOne (\<lambda>v. email v = email u \<and> isActive v) users = None"
    using assms(2) by (auto simp: findOne_None_iff)
  then show ?thesis by (simp add: authenticate_def)
qed

theorem inactive_cannot_authenticate_witness:
  "sample_bcrypt ''secret'' (password (sample_user\<lparr>isActive := False\<rparr>))
 \<and> authenticate sample_jwt sample_bcrypt sample_env 10 ''a@b.com'' ''secret''
      [sample_user\<lparr>isActive := False\<rparr>] =
     (reject 401 ''Invalid credentials'', [sample_user\<lparr>isActive := False\<rparr>])"
proof -
  have h1: "sample_user\<lparr>isActive := False\<rparr> \<in> set [sample_user\<lparr>isActive := False\<rparr>]"
    by simp
  have h2: "\<not> isActive (sample_user\<lparr>isActive := False\<rparr>)"
    by simp
  have h3: "distinct (map email [sample_user\<lparr>isActive := False\<rparr>])"
    by simp
  from inactive_cannot_authenticate [OF h1 h2 h3, where jwt = sample_jwt
         and bcrypt_compare = sample_bcrypt and ev = sample_env and now = 10 and pw = "''secret''"]
  show ?thesis by (simp add: sample_user_def sample_bcrypt_def)
qed

text \<open>
  C6. With unique ids, after the logout from all devices of a user, a refresh call with
  any token that names that user whenever it verifies is answered 401
  \<open>Invalid refresh token\<close>, while \<open>auth\<close> answers every \<open>Authorization\<close> header, at any
  time, exactly as it did before: an access token accepted before is accepted still.
\<close>

theorem logout_all_revokes:
  assumes "distinct (map user_id users)"
      and "\<And>decoded. jwt_verify jwt t (JWT_REFRESH_SECRET ev) now = Inr decoded \<Longrightarrow>
             userId decoded = req_userId requser"
      and "t \<noteq> []"
  shows "refresh jwt ev now (Some (Cookies (Some t))) (snd (logout_all requser users)) =
           (reject 401 ''Invalid refresh token'', snd (logout_all requser users))
       \<and> refresh jwt ev now None (snd (logout_all requser users)) =
           (reject 401 ''Invalid refresh token'', snd (logout_all requser users))
       \<and> auth jwt ev now' authorization (snd (logout_all requser users)) =
           auth jwt ev now' authorization users"
proof -
  let ?p = "req_userId requser"
  let ?f = "\<lambda>u::user. u\<lparr>refreshTokens := []\<rparr>"
  let ?users' = "findByIdAndUpdate ?p ?f users"
  have u': "snd (logout_all requser users) = ?users'" by (simp add: logout_all_def)
  have empty: "\<forall>v \<in> set ?users'. user_id v = ?p \<longrightarrow> refreshTokens v = []"
  proof (intro ballI impI)
    fix v assume "v \<in> set ?users'" and "user_id v = ?p"
    then have "\<exists>u \<in> set users. v = ?f u"
      unfolding findByIdAndUpdate_def
      by (intro updateOne_set [OF assms(1)]) simp_all
    then show "refreshTokens v = []" by auto
  qed
  have a: "refresh jwt ev now (Some (Cookies (Some t))) ?users' =
             (reject 401 ''Invalid refresh token'', ?users')"
  proof (cases "jwt_verify jwt t (JWT_REFRESH_SECRET ev) now")
    case (Inl err)
    with assms(3) show ?thesis by (simp add: refresh_def)
  next
    case (Inr decoded)
    with assms(2) have "userId decoded = ?p" by simp
    with empty have "findOne (\<lambda>u. user_id u = userId decoded
                          \<and> t \<in> set (map token (refreshTokens u))
                          \<and> isActive u) ?users' = None"
      by (auto simp: findOne_None_iff)
    with Inr assms(3) show ?thesis by (simp add: refresh_def)
  qed
  have b: "auth jwt ev now' authorization ?users' = auth jwt ev now' authorization users"
    by (rule auth_findByIdAndUpdate) simp_all
  have n: "refresh jwt ev now None ?users' = (reject 401 ''Invalid refresh token'', ?users')"
    by (simp add: refresh_def)
  from a n b show ?thesis by (simp only: u' simp_thms)
qed

theorem logout_all_revokes_witness:
  "fst (refresh sample_jwt sample_env 10 (Some (Cookies (Some ''r7a''))) [sample_user]) \<noteq>
     reject 401 ''Invalid refresh token''
 \<and> refresh sample_jwt sample_env 10 (Some (Cookies (Some ''r7a'')))
      (snd (logout_all (ReqUser 7 ''a@b.com'' ''admin'' ''Ann'') [sample_user])) =
     (reject 401 ''Invalid refresh token'', [sample_user\<lparr>refreshTokens := []\<rparr>])
 \<and> auth sample_jwt sample_env 20 (Some ''Bearer a7'')
      (snd (logout_all (ReqUser 7 ''a@b.com'' ''admin'' ''Ann'') [sample_user])) =
     Inr (ReqUser 7 ''a@b.com'' ''admin'' ''Ann'')"
proof -
  have h1: "distinct (map user_id [sample_user])" by simp
  have h2: "jwt_verify sample_jwt ''r7a'' (JWT_REFRESH_SECRET sample_env) 10 = Inr decoded \<Longrightarrow>
              userId decoded = req_userId (ReqUser 7 ''a@b.com'' ''admin'' ''Ann'')" for decoded
    by (auto simp: sample_jwt_def sample_env_def)
  have h3: "''r7a'' \<noteq> []" by simp
  have before: "fst (refresh sample_jwt sample_env 10 (Some (Cookies (Some ''r7a''))) [sample_user]) \<noteq>
                  reject 401 ''Invalid refresh token''"
    by (simp add: refresh_def sample_jwt_def sample_env_def sample_user_def findOne_def
        reject_def)
  have a: "auth sample_jwt sample_env 20 (Some ''Bearer a7'') [sample_user] =
             Inr (ReqUser 7 ''a@b.com'' ''admin'' ''Ann'')"
    by (simp add: auth_def sample_jwt_def sample_env_def sample_user_def findById_def
        findOne_def)
  have l: "snd (logout_all (ReqUser 7 ''a@b.com'' ''admin'' ''Ann'') [sample_user]) =
             [sample_user\<lparr>refreshTokens := []\<rparr>]"
    by (simp add: logout_all_def findByIdAndUpdate_def sample_user_def)
  from logout_all_revokes [OF h1 h2 h3, where now' = 20
         and authorization = "Some ''Bearer a7''"] before a l
  show ?thesis by simp
qed

text \<open>
  C8. For an authenticated request, \<open>authorize(roles)\<close> lets the request through
  exactly when \<open>roles\<close> is empty or contains the user's role, and answers 403
  \<open>Insufficient permissions.\<close> otherwise; no role stands in for another. Without
  \<open>req.user\<close> it answers 401.
\<close>

theorem authorize_membership:
  "(authorize roles (Some u) = Next \<longleftrightarrow> roles = [] \<or> req_role u \<in> set roles)
 \<and> (authorize roles (Some u) \<noteq> Next \<longrightarrow>
      authorize roles (Some u) = Respond (reject 403 ''Insufficient permissions.''))
 \<and> authorize roles None = Respond (reject 401 ''Authentication required.'')"
  by (simp add: authorize_def)

theorem authorize_membership_witness:
  "authorize [''manager'', ''employee''] (Some (ReqUser 7 ''a@b.com'' ''admin'' ''Ann'')) =
     Respond (reject 403 ''Insufficient permissions.'')
 \<and> authorize [''admin'', ''manager''] (Some (ReqUser 7 ''a@b.com'' ''admin'' ''Ann'')) = Next
 \<and> authorize [] (Some (ReqUser 7 ''a@b.com'' ''admin'' ''Ann'')) = Next"
  using authorize_membership [of "[''manager'', ''employee'']" "ReqUser 7 ''a@b.com'' ''admin'' ''Ann''"]
    authorize_membership [of "[''admin'', ''manager'']" "ReqUser 7 ''a@b.com'' ''admin'' ''Ann''"]
    authorize_membership [of "[]" "ReqUser 7 ''a@b.com'' ''admin'' ''Ann''"]
  by simp

text \<open>
  C9. Every refresh call, answered 200 or not, whatever \<open>req.cookies\<close> is, leaves the
  user collection as it was and sets no cookie. Its response is one of the two 401
  answers, or the 200 answer, which carries a new access token, signed for a user who
  still lists the refresh token supplied, and that user's \<open>id\<close>, \<open>name\<close>, \<open>email\<close> and
  \<open>role\<close>, and nothing else.
\<close>

theorem refresh_frame:
  "snd (refresh jwt ev now req_cookies users) = users
 \<and> cookie (fst (refresh jwt ev now req_cookies users)) = NoCookie
 \<and> (fst (refresh jwt ev now req_cookies users) = reject 401 ''Refresh token not provided''
    \<or> fst (refresh jwt ev now req_cookies users) = reject 401 ''Invalid refresh token''
    \<or> (\<exists>t u. req_cookies = Some (Cookies (Some t)) \<and> u \<in> set users
              \<and> t \<in> set (map token (refreshTokens u))
              \<and> fst (refresh jwt ev now req_cookies users) =
                  \<lparr>statusCode = 200, success = True, body_message = None,
                   body_token = Some (generateAuthToken jwt ev now u),
                   body_user = Some (user_view u), cookie = NoCookie\<rparr>))"
  by (auto simp: refresh_def reject_def split: option.splits cookies.splits sum.splits
      dest!: findOne_SomeD)

theorem refresh_frame_witness:
  "refresh sample_jwt sample_env 10 None [sample_user] =
     (reject 401 ''Invalid refresh token'', [sample_user])
 \<and> cookie (fst (refresh sample_jwt sample_env 10 None [sample_user])) = NoCookie"
proof -
  have r: "fst (refresh sample_jwt sample_env 10 None [sample_user]) =
             reject 401 ''Invalid refresh token''"
    by (simp add: refresh_def)
  from refresh_frame [of sample_jwt sample_env 10 None "[sample_user]"] r
  show ?thesis by (simp add: prod_eq_iff)
qed

text \<open>
  With a cookie parser mounted, the handler would get the cookie and answer 200, still
  writing nothing.
\<close>

lemma refresh_parsed_cookie:
  "refresh sample_jwt sample_env 10 (Some (Cookies (Some ''r7a''))) [sample_user] =
     (\<lparr>statusCode = 200, success = True, body_message = None, body_token = Some ''a7'',
       body_user = Some (UserJson 7 ''Ann'' ''a@b.com'' ''admin''), cookie = NoCookie\<rparr>,
      [sample_user])"
proof -
  have show7: "show_nat 7 = ''7''" by (simp add: show_nat.simps)
  show ?thesis
    by (simp add: refresh_def sample_jwt_def sample_env_def sample_user_def findOne_def
        generateAuthToken_def user_view_def show7)
qed

end
